theory Spec2Isabelle
  imports Complex_Main
begin

section \<open>The great-circle distance calculator of haversine.py\<close>

text \<open>
  The program works on Python floats. The embedding below is over the real numbers:
  every float is read as the real it denotes and every operation is exact. The two
  library calls of the function that can fail, \<open>math.sqrt\<close> and \<open>math.asin\<close>, raise
  \<open>ValueError: math domain error\<close> outside their domains; they are modelled as
  functions into a sum type, so that each raise is a branch of the model.

  Rounding is not modelled. Over the reals the intermediate value \<open>a\<close> of the function
  lies in \<open>[0, 1]\<close> for all arguments, so neither branch that raises is taken; the
  float value of \<open>a\<close> can leave that interval by a rounding error, and the program
  can then raise where the model returns. What is proved below is the value the
  formula has; whether the program raises on a given float input is outside this
  development.
\<close>

subsection \<open>Library functions\<close>

datatype error = MathDomainError

text \<open>\<open>math.radians(x)\<close>: the angle \<open>x\<close> converted from degrees to radians.\<close>

definition radians :: "real \<Rightarrow> real" where
  "radians x = x * (pi / 180)"

text \<open>\<open>math.sqrt(x)\<close>: raises on a negative argument.\<close>

definition math_sqrt :: "real \<Rightarrow> error + real" where
  "math_sqrt x = (if x < 0 then Inl MathDomainError else Inr (sqrt x))"

text \<open>\<open>math.asin(x)\<close>: raises on an argument outside \<open>[-1, 1]\<close>.\<close>

definition math_asin :: "real \<Rightarrow> error + real" where
  "math_asin x = (if x < - 1 \<or> 1 < x then Inl MathDomainError else Inr (arcsin x))"

subsection \<open>The function \<open>haversine_distance\<close>\<close>

text \<open>
  Lines 13 to 18: the four arguments are converted to radians and the intermediate
  value \<open>a\<close> is formed.
\<close>

definition haversine_a :: "real \<Rightarrow> real \<Rightarrow> real \<Rightarrow> real \<Rightarrow> real" where
  "haversine_a lat1 lon1 lat2 lon2 =
    (let lat1 = radians lat1; lon1 = radians lon1;
         lat2 = radians lat2; lon2 = radians lon2;
         dlat = lat2 - lat1;
         dlon = lon2 - lon1
     in (sin (dlat / 2))\<^sup>2 + cos lat1 * cos lat2 * (sin (dlon / 2))\<^sup>2)"

text \<open>
  Line 19: \<open>c = 2 * math.asin(math.sqrt(a))\<close>. The square root is taken of \<open>a\<close> as it
  is, and \<open>math.asin\<close> of that square root as it is.
\<close>

definition haversine_c :: "real \<Rightarrow> error + real" where
  "haversine_c a =
    (case math_sqrt a of
       Inl e \<Rightarrow> Inl e
     | Inr s \<Rightarrow> (case math_asin s of
                  Inl e \<Rightarrow> Inl e
                | Inr t \<Rightarrow> Inr (2 * t)))"

text \<open>Lines 6 to 24: the whole function, with the radius \<open>r = 6371\<close> of line 22.\<close>

definition haversine_distance :: "real \<Rightarrow> real \<Rightarrow> real \<Rightarrow> real \<Rightarrow> error + real" where
  "haversine_distance lat1 lon1 lat2 lon2 =
    (let a = haversine_a lat1 lon1 lat2 lon2
     in case haversine_c a of
          Inl e \<Rightarrow> Inl e
        | Inr c \<Rightarrow> (let r = 6371 in Inr (c * r)))"

subsection \<open>The page script\<close>




subsection \<open>The formula as the specification words it\<close>


section \<open>The range of the intermediate value\<close>

text \<open>
  The value \<open>a\<close> is half of one minus the inner product of the two unit vectors the
  coordinates denote; hence it lies between 0 and 1 for all arguments, also for
  latitudes and longitudes outside their usual ranges.
\<close>

lemma a_as_inner_product:
  fixes p q u v :: real
  shows "(sin ((q - p) / 2))\<^sup>2 + cos p * cos q * (sin ((v - u) / 2))\<^sup>2
       = (1 - (sin p * sin q + cos p * cos q * cos (v - u))) / 2"
proof -
  have s: "(sin (x / 2))\<^sup>2 = (1 - cos x) / 2" for x :: real
    using cos_double_sin [of "x / 2"] by simp
  show ?thesis
    unfolding s cos_diff [of q p] by (simp add: field_simps)
qed

lemma inner_product_le_1:
  fixes p q d :: real
  shows "\<bar>sin p * sin q + cos p * cos q * cos d\<bar> \<le> 1"
proof -
  have c: "\<bar>cos d\<bar> \<le> 1" by simp
  have "\<bar>sin p * sin q + cos p * cos q * cos d\<bar>
          \<le> \<bar>sin p * sin q\<bar> + \<bar>cos p * cos q * cos d\<bar>"
    by (rule abs_triangle_ineq)
  also have "\<bar>cos p * cos q * cos d\<bar> = \<bar>cos p * cos q\<bar> * \<bar>cos d\<bar>"
    by (simp add: abs_mult)
  also have "\<bar>sin p * sin q\<bar> + \<bar>cos p * cos q\<bar> * \<bar>cos d\<bar>
          \<le> \<bar>sin p * sin q\<bar> + \<bar>cos p * cos q\<bar>"
    using c by (simp add: mult_left_le)
  also have "\<dots> \<le> 1"
  proof -
    have 1: "\<bar>sin p * sin q\<bar> + \<bar>cos p * cos q\<bar> = \<bar>sin p\<bar> * \<bar>sin q\<bar> + \<bar>cos p\<bar> * \<bar>cos q\<bar>"
      by (simp add: abs_mult)
    have 2: "2 * (\<bar>sin p\<bar> * \<bar>sin q\<bar>) \<le> (sin p)\<^sup>2 + (sin q)\<^sup>2"
      using sum_squares_bound [of "\<bar>sin p\<bar>" "\<bar>sin q\<bar>"] by simp
    have 3: "2 * (\<bar>cos p\<bar> * \<bar>cos q\<bar>) \<le> (cos p)\<^sup>2 + (cos q)\<^sup>2"
      using sum_squares_bound [of "\<bar>cos p\<bar>" "\<bar>cos q\<bar>"] by simp
    have "(sin p)\<^sup>2 + (cos p)\<^sup>2 = 1" "(sin q)\<^sup>2 + (cos q)\<^sup>2 = 1" by simp_all
    with 1 2 3 show ?thesis by linarith
  qed
  finally show ?thesis .
qed

lemma haversine_a_range:
  "0 \<le> haversine_a lat1 lon1 lat2 lon2 \<and> haversine_a lat1 lon1 lat2 lon2 \<le> 1"
proof -
  have "haversine_a lat1 lon1 lat2 lon2 =
     (1 - (sin (radians lat1) * sin (radians lat2)
           + cos (radians lat1) * cos (radians lat2) * cos (radians lon2 - radians lon1))) / 2"
    unfolding haversine_a_def Let_def by (rule a_as_inner_product)
  moreover note inner_product_le_1 [of "radians lat1" "radians lat2" "radians lon2 - radians lon1"]
  ultimately show ?thesis by (simp add: abs_le_iff)
qed

section \<open>The value the function returns\<close>

lemma haversine_c_unit:
  assumes "0 \<le> a" and "a \<le> 1"
  shows "haversine_c a = Inr (2 * arcsin (sqrt a))"
proof -
  from assms have "0 \<le> sqrt a" and "sqrt a \<le> 1" by simp_all
  then have "\<not> (sqrt a < - 1 \<or> 1 < sqrt a)" by linarith
  with assms show ?thesis
    by (simp add: haversine_c_def math_sqrt_def math_asin_def)
qed

lemma haversine_distance_value:
  "haversine_distance lat1 lon1 lat2 lon2 =
     Inr (2 * arcsin (sqrt (haversine_a lat1 lon1 lat2 lon2)) * 6371)"
  using haversine_a_range [of lat1 lon1 lat2 lon2]
  by (simp add: haversine_distance_def haversine_c_unit)

lemma sin_half_diff_swap:
  fixes p q :: real
  shows "(sin ((p - q) / 2))\<^sup>2 = (sin ((q - p) / 2))\<^sup>2"
proof -
  have "(p - q) / 2 = - ((q - p) / 2)" by argo
  then have "sin ((p - q) / 2) = - sin ((q - p) / 2)"
    by (simp only: sin_minus)
  then show ?thesis by simp
qed

lemma haversine_a_swap:
  "haversine_a lat1 lon1 lat2 lon2 = haversine_a lat2 lon2 lat1 lon1"
  unfolding haversine_a_def Let_def
  using sin_half_diff_swap [of "radians lat2" "radians lat1"]
        sin_half_diff_swap [of "radians lon2" "radians lon1"]
  by (simp add: mult.commute)

lemma haversine_a_shift:
  "haversine_a lat1 (lon1 + d) lat2 (lon2 + d) = haversine_a lat1 lon1 lat2 lon2"
proof -
  have "radians (lon2 + d) - radians (lon1 + d) = radians lon2 - radians lon1"
    unfolding radians_def by (simp only: distrib_right)
  then show ?thesis
    by (simp add: haversine_a_def Let_def)
qed

lemma radians_minus: "radians (- x) = - radians x"
  by (simp add: radians_def)

lemma haversine_a_reflect:
  "haversine_a (- lat1) lon1 (- lat2) lon2 = haversine_a lat1 lon1 lat2 lon2"
proof -
  have "(sin ((- radians lat2 - - radians lat1) / 2))\<^sup>2
      = (sin ((radians lat2 - radians lat1) / 2))\<^sup>2"
    using sin_half_diff_swap [of "radians lat1" "radians lat2"] by simp
  then show ?thesis
    by (simp add: haversine_a_def Let_def radians_minus)
qed

lemma haversine_a_same: "haversine_a lat lon lat lon = 0"
  by (simp add: haversine_a_def Let_def)

section \<open>Half the circumference of the sphere\<close>





section \<open>The claims\<close>


text \<open>
  C3: \<open>haversine_distance\<close> is symmetric in its two coordinates: the distance from A
  to B is the distance from B to A.
\<close>

theorem haversine_symmetric:
  "haversine_distance lat1 lon1 lat2 lon2 = haversine_distance lat2 lon2 lat1 lon1"
  by (simp add: haversine_distance_def haversine_a_swap [of lat1 lon1 lat2 lon2])

text \<open>C4: on two identical coordinates \<open>haversine_distance\<close> returns 0.\<close>

theorem haversine_identical:
  "haversine_distance lat lon lat lon = Inr 0"
  by (simp add: haversine_distance_value haversine_a_same)





text \<open>
  C9: \<open>haversine_distance\<close> depends on the two longitudes only through their
  difference: shifting both by the same \<open>d\<close> leaves the result unchanged.
\<close>

theorem longitude_shift:
  "haversine_distance lat1 (lon1 + d) lat2 (lon2 + d) = haversine_distance lat1 lon1 lat2 lon2"
  by (simp add: haversine_distance_def haversine_a_shift)

text \<open>
  C10: \<open>haversine_distance\<close> is invariant under reflection across the equator:
  negating both latitudes leaves the result unchanged.
\<close>

theorem equator_reflection:
  "haversine_distance (- lat1) lon1 (- lat2) lon2 = haversine_distance lat1 lon1 lat2 lon2"
  by (simp add: haversine_distance_def haversine_a_reflect)

end
